theory Spec2Isabelle
  imports Main
begin

section \<open>The Cloudant check (cloudant.py) as a shallow embedding\<close>

text \<open>
  The check is a Python 2 class with one mutable attribute of its own,
  \<^verbatim>\<open>last_timestamps\<close>, and three effects on its host: gauges, service checks and
  warnings. Methods become functions on an explicit state; a method that can raise
  returns the exception (if any) together with the state it leaves behind, since
  what was emitted before a \<^verbatim>\<open>raise\<close> stays emitted. Calls of
  \<^verbatim>\<open>self.log.debug\<close> and \<^verbatim>\<open>self.log.info\<close> have no effect that any
  property below observes and are left out.
\<close>

subsection \<open>Exceptions\<close>

datatype exn =
    Exception string
  | KeyError string
  | TypeError string
  | Timeout string
  | HTTPError string
  | ConnectionError string

text \<open>\<^verbatim>\<open>str(e)\<close>: the message; for a \<^verbatim>\<open>KeyError\<close> the quoted key.\<close>

fun str_exn :: "exn \<Rightarrow> string" where
  "str_exn (Exception m) = m"
| "str_exn (KeyError k) = [CHR 0x27] @ k @ [CHR 0x27]"
| "str_exn (TypeError m) = m"
| "str_exn (Timeout m) = m"
| "str_exn (HTTPError m) = m"
| "str_exn (ConnectionError m) = m"

subsection \<open>Data model\<close>

text \<open>
  The instance config is a dict read at five keys. A key that is absent is
  \<open>None\<close>. The value under \<^verbatim>\<open>tags\<close> is a list object: the dict holds a reference
  to it, so the field is an address into the store of list objects below.
\<close>

type_synonym addr = nat

record instance_config =
  i_cluster :: "string option"
  i_username :: "string option"
  i_password :: "string option"
  i_tags :: "addr option"
  i_timeout :: "int option"

text \<open>
  The store of list objects (lists of tag strings), indexed by address. A reference held
  by an instance is an address of the store; the properties below say so where they
  read through it.
\<close>

type_synonym heap = "string list list"

definition new_list :: "heap \<Rightarrow> addr \<times> heap" where
  "new_list h = (length h, h @ [[]])"

definition list_append :: "addr \<Rightarrow> string \<Rightarrow> heap \<Rightarrow> heap" where
  "list_append a x h = h[a := (h ! a) @ [x]]"

definition deref :: "heap \<Rightarrow> addr \<Rightarrow> string list" where
  "deref h a = h ! a"

text \<open>
  The stats response:
  \<^verbatim>\<open>{end: epoch, target_responses: [{target: str, datapoints: [[value, epoch], ...]}]}\<close>.
  A datapoint's value may be JSON null; the value itself is never inspected further,
  so its type is a parameter.
\<close>

record 'v target_response =
  target :: string
  datapoints :: "('v option \<times> int) list"

record 'v stats_response =
  end_epoch :: int
  target_responses :: "'v target_response list"

datatype status = OK | WARNING | CRITICAL | UNKNOWN

record service_check_rec =
  sc_name :: string
  sc_status :: status
  sc_tags :: "string list"
  sc_message :: string

record 'v gauge_rec =
  g_name :: string
  g_value :: 'v
  g_tags :: "string list"
  g_timestamp :: int

record 'v agent =
  last_timestamps :: "string \<rightharpoonup> int"
  gauges :: "'v gauge_rec list"
  service_checks :: "service_check_rec list"
  warnings :: "string list"

text \<open>\<^verbatim>\<open>__init__\<close>: an empty ledger, nothing emitted yet.\<close>

definition init_agent :: "'v agent" where
  "init_agent = \<lparr>last_timestamps = Map.empty, gauges = [], service_checks = [], warnings = []\<rparr>"

subsection \<open>Host collaborators\<close>

definition gauge :: "string \<Rightarrow> 'v \<Rightarrow> string list \<Rightarrow> int \<Rightarrow> 'v agent \<Rightarrow> 'v agent" where
  "gauge name val tags timestamp st =
     st\<lparr>gauges := gauges st @ [\<lparr>g_name = name, g_value = val, g_tags = tags, g_timestamp = timestamp\<rparr>]\<rparr>"

definition service_check :: "string \<Rightarrow> status \<Rightarrow> string list \<Rightarrow> string \<Rightarrow> 'v agent \<Rightarrow> 'v agent" where
  "service_check name stat tags message st =
     st\<lparr>service_checks := service_checks st @
        [\<lparr>sc_name = name, sc_status = stat, sc_tags = tags, sc_message = message\<rparr>]\<rparr>"

definition warning :: "string \<Rightarrow> 'v agent \<Rightarrow> 'v agent" where
  "warning message st = st\<lparr>warnings := warnings st @ [message]\<rparr>"

text \<open>
  The network: what \<^verbatim>\<open>requests.get(...)\<close>, \<^verbatim>\<open>raise_for_status()\<close> and
  \<^verbatim>\<open>json()\<close> together do for a URL, credentials and a timeout. The parsed body is
  \<open>None\<close> for JSON null.
\<close>

datatype 'v reply = Raises exn | Returns "'v stats_response option"

type_synonym 'v network = "string \<Rightarrow> string \<times> string \<Rightarrow> int \<Rightarrow> 'v reply"

subsection \<open>Constants of the class\<close>

definition SERVICE_CHECK_NAME :: string where
  "SERVICE_CHECK_NAME = ''cloudant.can_connect''"

definition TIMEOUT :: int where
  "TIMEOUT = 5"

subsection \<open>Methods\<close>

fun validate_keys :: "(string \<times> bool) list \<Rightarrow> exn option" where
  "validate_keys [] = None"
| "validate_keys ((key, present) # rest) =
     (if \<not> present then Some (Exception (''A '' @ key @ '' must be specified''))
      else validate_keys rest)"

definition validate_instance :: "instance_config \<Rightarrow> exn option" where
  "validate_instance inst =
     validate_keys [(''cluster'', i_cluster inst \<noteq> None),
                    (''username'', i_username inst \<noteq> None),
                    (''password'', i_password inst \<noteq> None)]"

text \<open>
  \<^verbatim>\<open>URL_TEMPLATE.format(endpoint=endpoint, **instance)\<close>: the fields are looked up
  in the order they stand in the template, and a missing one is a \<^verbatim>\<open>KeyError\<close>.
\<close>

definition build_url :: "string \<Rightarrow> instance_config \<Rightarrow> exn + string" where
  "build_url endpoint inst =
     (case i_username inst of
        None \<Rightarrow> Inl (KeyError ''username'')
      | Some username \<Rightarrow>
          (case i_cluster inst of
             None \<Rightarrow> Inl (KeyError ''cluster'')
           | Some cluster \<Rightarrow>
               Inr (''https://'' @ username @ ''.cloudant.com/_api/v2/monitoring/'' @ endpoint
                    @ ''?cluster='' @ cluster)))"

definition get_stats :: "'v network \<Rightarrow> string \<Rightarrow> instance_config \<Rightarrow> exn + 'v stats_response option" where
  "get_stats net url inst =
     (case i_username inst of
        None \<Rightarrow> Inl (KeyError ''username'')
      | Some username \<Rightarrow>
          (case i_password inst of
             None \<Rightarrow> Inl (KeyError ''password'')
           | Some password \<Rightarrow>
               (case net url (username, password)
                       (case i_timeout inst of None \<Rightarrow> TIMEOUT | Some t \<Rightarrow> t) of
                  Raises e \<Rightarrow> Inl e
                | Returns body \<Rightarrow> Inr body)))"

text \<open>
  \<^verbatim>\<open>check_connection\<close>: the URL is built outside the \<^verbatim>\<open>try\<close>; the three
  \<^verbatim>\<open>except\<close> clauses are tried in order, each emits the service check and re-raises.
\<close>

definition check_connection ::
  "'v network \<Rightarrow> instance_config \<Rightarrow> string list \<Rightarrow> 'v agent \<Rightarrow> exn option \<times> 'v agent" where
  "check_connection net inst tags st =
     (case build_url ''uptime'' inst of
        Inl e \<Rightarrow> (Some e, st)
      | Inr url \<Rightarrow>
          (case get_stats net url inst of
             Inl (Timeout m) \<Rightarrow>
               (Some (Timeout m),
                service_check SERVICE_CHECK_NAME CRITICAL tags
                  (''Request timeout: '' @ url @ '', '' @ str_exn (Timeout m)) st)
           | Inl (HTTPError m) \<Rightarrow>
               (Some (HTTPError m), service_check SERVICE_CHECK_NAME CRITICAL tags m st)
           | Inl e \<Rightarrow>
               (Some e, service_check SERVICE_CHECK_NAME CRITICAL tags (str_exn e) st)
           | Inr body \<Rightarrow>
               (None,
                service_check SERVICE_CHECK_NAME OK tags
                  (''Connection to '' @ url @ '' was successful'') st)))"

text \<open>
  \<^verbatim>\<open>_should_record_data\<close>:
  \<^verbatim>\<open>last_ts = self.last_timestamps.get(tag, None); return not last_ts or last_ts < epoch\<close>.
  Python's \<^verbatim>\<open>not\<close> is true of \<^verbatim>\<open>None\<close> and of the integer 0.
\<close>

definition should_record_data :: "'v agent \<Rightarrow> string \<Rightarrow> int \<Rightarrow> bool" where
  "should_record_data st tag epoch =
     (case last_timestamps st tag of
        None \<Rightarrow> True
      | Some last_ts \<Rightarrow> last_ts = 0 \<or> last_ts < epoch)"

text \<open>\<^verbatim>\<open>'.'.join(parts)\<close>.\<close>

fun dot_join :: "string list \<Rightarrow> string" where
  "dot_join [] = []"
| "dot_join [x] = x"
| "dot_join (x # y # rest) = x @ ''.'' @ dot_join (y # rest)"

text \<open>The inner loop of \<^verbatim>\<open>record_data\<close>, over the datapoints of one target.\<close>

fun record_datapoints ::
  "string \<Rightarrow> string list option \<Rightarrow> ('v option \<times> int) list \<Rightarrow> 'v agent \<Rightarrow> 'v agent" where
  "record_datapoints metric_name tags [] st = st"
| "record_datapoints metric_name tags ((val, epoch) # rest) st =
     record_datapoints metric_name tags rest
       (case val of
          None \<Rightarrow> st
        | Some v \<Rightarrow>
            if should_record_data st metric_name epoch
            then gauge metric_name v (case tags of None \<Rightarrow> [] | Some ts \<Rightarrow> ts) epoch
                   (st\<lparr>last_timestamps := (last_timestamps st)(metric_name \<mapsto> epoch)\<rparr>)
            else st)"

text \<open>The outer loop, over the target responses.\<close>

fun record_responses ::
  "string \<Rightarrow> (string \<Rightarrow> string) \<Rightarrow> string list option \<Rightarrow> 'v target_response list
     \<Rightarrow> 'v agent \<Rightarrow> 'v agent" where
  "record_responses prefix stat_name_fn tags [] st = st"
| "record_responses prefix stat_name_fn tags (response # rest) st =
     record_responses prefix stat_name_fn tags rest
       (record_datapoints (dot_join [prefix, stat_name_fn (target response)]) tags
          (datapoints response) st)"

text \<open>
  \<^verbatim>\<open>record_data\<close>. Subscripting \<^verbatim>\<open>None\<close> raises a \<^verbatim>\<open>TypeError\<close>, whose message
  in Python 2 is \<^verbatim>\<open>'NoneType' object has no attribute '__getitem__'\<close>.
\<close>

definition none_subscript_message :: string where
  "none_subscript_message =
     [CHR 0x27] @ ''NoneType'' @ [CHR 0x27] @ '' object has no attribute ''
     @ [CHR 0x27] @ ''__getitem__'' @ [CHR 0x27]"

definition record_data ::
  "'v stats_response option \<Rightarrow> string \<Rightarrow> (string \<Rightarrow> string) \<Rightarrow> string list option
     \<Rightarrow> 'v agent \<Rightarrow> exn option \<times> 'v agent" where
  "record_data data endpoint_name stat_name_fn tags st =
     (case data of
        None \<Rightarrow> (Some (TypeError none_subscript_message), st)
      | Some d \<Rightarrow>
          (let prefix = dot_join [''cloudant'', endpoint_name] in
           if \<not> should_record_data st prefix (end_epoch d) then (None, st)
           else (None, record_responses prefix stat_name_fn tags (target_responses d) st)))"

text \<open>
  The target transform of \<^verbatim>\<open>get_status_code_data\<close>,
  \<^verbatim>\<open>lambda target: target.split(' ', 1)[-1]\<close>: what follows the first space, or the
  whole string when it has none.
\<close>

definition split_space1 :: "string \<Rightarrow> string list" where
  "split_space1 s =
     (case dropWhile (\<lambda>c. c \<noteq> CHR '' '') s of
        [] \<Rightarrow> [s]
      | _ # after \<Rightarrow> [takeWhile (\<lambda>c. c \<noteq> CHR '' '') s, after])"

definition status_code_stat_name :: "string \<Rightarrow> string" where
  "status_code_stat_name s = last (split_space1 s)"

definition get_status_code_data ::
  "'v network \<Rightarrow> instance_config \<Rightarrow> string list \<Rightarrow> 'v agent \<Rightarrow> exn option \<times> 'v agent" where
  "get_status_code_data net inst tags st =
     (case build_url ''rate/status_code'' inst of
        Inl e \<Rightarrow> (Some e, st)
      | Inr url \<Rightarrow>
          (case i_cluster inst of
             None \<Rightarrow> (Some (KeyError ''cluster''), st)
           | Some cluster \<Rightarrow>
               (case get_stats net url inst of
                  Inl (HTTPError m) \<Rightarrow>
                    (None, warning (''Error reading data from URL: '' @ url) st)
                | Inl e \<Rightarrow> (Some e, st)
                | Inr data \<Rightarrow>
                    record_data data ''status_code'' status_code_stat_name (Some tags)
                      (if data = None
                       then warning (''No stats could be retrieved from '' @ url) st
                       else st))))"

text \<open>
  \<^verbatim>\<open>check\<close>. \<^verbatim>\<open>instance.get('tags', [])\<close> yields the list object the dict holds,
  or a new empty list; \<^verbatim>\<open>append\<close> changes that object in place.
\<close>

definition check ::
  "'v network \<Rightarrow> instance_config \<Rightarrow> heap \<times> 'v agent \<Rightarrow> exn option \<times> heap \<times> 'v agent" where
  "check net inst hs =
     (case hs of (h, st) \<Rightarrow>
       (case validate_instance inst of
          Some e \<Rightarrow> (Some e, h, st)
        | None \<Rightarrow>
            (case (case i_tags inst of None \<Rightarrow> new_list h | Some a \<Rightarrow> (a, h)) of
               (tags, h1) \<Rightarrow>
                 (case i_cluster inst of
                    None \<Rightarrow> (Some (KeyError ''cluster''), h1, st)
                  | Some cluster \<Rightarrow>
                      (let h2 = list_append tags (''cluster:'' @ cluster) h1 in
                       (case check_connection net inst (deref h2 tags) st of
                          (Some e, st1) \<Rightarrow> (Some e, h2, st1)
                        | (None, st1) \<Rightarrow>
                            (case get_status_code_data net inst (deref h2 tags) st1 of
                               (r, st2) \<Rightarrow> (r, h2, st2))))))))"

text \<open>Successive calls of \<^verbatim>\<open>record_data\<close> on one check object, an exception ending
  only the call that raised it.\<close>

fun record_all ::
  "string \<Rightarrow> ('v stats_response option \<times> (string \<Rightarrow> string) \<times> string list option) list
     \<Rightarrow> 'v agent \<Rightarrow> 'v agent" where
  "record_all endpoint_name [] st = st"
| "record_all endpoint_name ((data, stat_name_fn, tags) # rest) st =
     record_all endpoint_name rest (snd (record_data data endpoint_name stat_name_fn tags st))"

subsection \<open>Notions used to state the properties\<close>

text \<open>A datapoint whose value is not null, and a response without its null datapoints.\<close>

definition has_value :: "'v option \<times> int \<Rightarrow> bool" where
  "has_value dp = (fst dp \<noteq> None)"

definition without_nulls :: "'v stats_response \<Rightarrow> 'v stats_response" where
  "without_nulls d =
     d\<lparr>target_responses :=
         map (\<lambda>r. r\<lparr>datapoints := filter has_value (datapoints r)\<rparr>)
           (target_responses d)\<rparr>"

text \<open>
  No datapoint of the batch has epoch 0; no entry of the ledger is 0; every entry of one
  ledger is still there in another with an epoch at least as large; a gauge whose
  timestamp exceeds what the ledger holds for its name (or the ledger holds nothing).
\<close>

definition epochs_nonzero :: "'v stats_response \<Rightarrow> bool" where
  "epochs_nonzero d =
     (\<forall>r \<in> set (target_responses d). \<forall>dp \<in> set (datapoints r). snd dp \<noteq> 0)"

definition ledger_nonzero :: "'v agent \<Rightarrow> bool" where
  "ledger_nonzero st = (\<forall>k. last_timestamps st k \<noteq> Some 0)"

definition ledger_le :: "'v agent \<Rightarrow> 'v agent \<Rightarrow> bool" where
  "ledger_le st st' =
     (\<forall>k E. last_timestamps st k = Some E \<longrightarrow> (\<exists>E'. last_timestamps st' k = Some E' \<and> E \<le> E'))"

definition fresh_for :: "'v agent \<Rightarrow> 'v gauge_rec \<Rightarrow> bool" where
  "fresh_for st g =
     (case last_timestamps st (g_name g) of None \<Rightarrow> True | Some E \<Rightarrow> E < g_timestamp g)"

text \<open>
  The ledger holds, for the key, a nonzero epoch at least as large as the given one; and
  this of every non-null datapoint of a list of target responses, under its metric name.
\<close>

definition recorded_upto :: "'v agent \<Rightarrow> string \<Rightarrow> int \<Rightarrow> bool" where
  "recorded_upto st key epoch =
     (\<exists>E. last_timestamps st key = Some E \<and> E \<noteq> 0 \<and> epoch \<le> E)"

definition all_recorded :: "'v agent \<Rightarrow> string \<Rightarrow> (string \<Rightarrow> string) \<Rightarrow> 'v target_response list \<Rightarrow> bool" where
  "all_recorded st prefix stat_name_fn rs =
     (\<forall>r \<in> set rs. \<forall>dp \<in> set (datapoints r). fst dp \<noteq> None \<longrightarrow>
        recorded_upto st (dot_join [prefix, stat_name_fn (target r)]) (snd dp))"

subsection \<open>Inputs used in the examples\<close>

text \<open>The batch \<^verbatim>\<open>{end: 100, target_responses: [{target: "GET /a", datapoints: [[5, 90]]}]}\<close>.\<close>

definition scenario_batch :: "int stats_response" where
  "scenario_batch =
     \<lparr>end_epoch = 100,
      target_responses = [\<lparr>target = ''GET /a'', datapoints = [(Some 5, 90)]\<rparr>]\<rparr>"


text \<open>
  \<^verbatim>\<open>{end: 100, target_responses: [{target: "GET /a", datapoints: [[5, 0]]}]}\<close> and
  \<^verbatim>\<open>{end: 200, target_responses: [{target: "GET /a", datapoints: [[6, 0], [7, -1]]}]}\<close>.
\<close>

definition epoch0_batch :: "int stats_response" where
  "epoch0_batch =
     \<lparr>end_epoch = 100,
      target_responses = [\<lparr>target = ''GET /a'', datapoints = [(Some 5, 0)]\<rparr>]\<rparr>"

definition older_batch :: "int stats_response" where
  "older_batch =
     \<lparr>end_epoch = 200,
      target_responses = [\<lparr>target = ''GET /a'', datapoints = [(Some 6, 0), (Some 7, - 1)]\<rparr>]\<rparr>"

text \<open>
  An instance \<^verbatim>\<open>{cluster: "c1", username: "u", password: "p"}\<close>, the same with
  \<^verbatim>\<open>tags: ["env:prod"]\<close> (the list object at address 0), and a network whose every
  request succeeds with the body \<^verbatim>\<open>null\<close>.
\<close>

definition plain_instance :: instance_config where
  "plain_instance =
     \<lparr>i_cluster = Some ''c1'', i_username = Some ''u'', i_password = Some ''p'',
      i_tags = None, i_timeout = None\<rparr>"

definition tagged_instance :: instance_config where
  "tagged_instance = plain_instance\<lparr>i_tags := Some 0\<rparr>"

definition tagged_heap :: heap where
  "tagged_heap = [[''env:prod'']]"

definition null_network :: "int network" where
  "null_network url auth timeout = Returns None"

text \<open>
  \<^verbatim>\<open>{end: 300, target_responses: [{target: "GET /a", datapoints: [[null, 200], [5, 90]]}]}\<close>.
\<close>

definition null_batch :: "int stats_response" where
  "null_batch =
     \<lparr>end_epoch = 300,
      target_responses = [\<lparr>target = ''GET /a'', datapoints = [(None, 200), (Some 5, 90)]\<rparr>]\<rparr>"

text \<open>A network whose every request times out.\<close>

definition timeout_network :: "int network" where
  "timeout_network url auth timeout = Raises (Timeout ''timed out'')"

section \<open>Properties\<close>

subsection \<open>Names and keys\<close>

lemma status_code_stat_name_GET_a: "status_code_stat_name ''GET /a'' = ''/a''"
  by (simp add: status_code_stat_name_def split_space1_def)

lemma dot_join_pair: "dot_join [a, b] = a @ ''.'' @ b"
  by simp

lemma dot_join_extends: "dot_join [prefix, suffix] \<noteq> prefix"
  by simp

subsection \<open>The scenario of the first call\<close>

lemma record_data_scenario:
  "record_data (Some scenario_batch) ''status_code'' status_code_stat_name tags init_agent =
     (None,
      \<lparr>last_timestamps = [''cloudant.status_code./a'' \<mapsto> 90],
       gauges = [\<lparr>g_name = ''cloudant.status_code./a'', g_value = 5,
                  g_tags = (case tags of None \<Rightarrow> [] | Some ts \<Rightarrow> ts), g_timestamp = 90\<rparr>],
       service_checks = [], warnings = []\<rparr>)"
  by (simp add: record_data_def scenario_batch_def should_record_data_def init_agent_def
      status_code_stat_name_GET_a gauge_def)

text \<open>
  C1 at its own scenario: starting from an empty ledger, \<^verbatim>\<open>record_data\<close> on the
  batch \<^verbatim>\<open>{end: 100, target_responses: [{target: "GET /a", datapoints: [[5, 90]]}]}\<close>
  with endpoint name \<^verbatim>\<open>status_code\<close> and the first-space-stripping transform
  returns normally and emits exactly one gauge, \<^verbatim>\<open>cloudant.status_code./a\<close> with
  value 5 and timestamp 90, as the claim says, and stores 90 for
  \<^verbatim>\<open>cloudant.status_code./a\<close>. That is the only entry of the ledger afterwards:
  the claim says \<^verbatim>\<open>cloudant.status_code\<close> is mapped to 100, and the code, which
  tests that entry before the loop, never stores it.
\<close>

theorem record_data_scenario_ledger:
  "fst (record_data (Some scenario_batch) ''status_code'' status_code_stat_name tags init_agent)
     = None
   \<and> gauges (snd (record_data (Some scenario_batch) ''status_code'' status_code_stat_name tags
                    init_agent))
       = [\<lparr>g_name = ''cloudant.status_code./a'', g_value = 5,
            g_tags = (case tags of None \<Rightarrow> [] | Some ts \<Rightarrow> ts), g_timestamp = 90\<rparr>]
   \<and> last_timestamps (snd (record_data (Some scenario_batch) ''status_code''
                             status_code_stat_name tags init_agent))
       = [''cloudant.status_code./a'' \<mapsto> 90]
   \<and> last_timestamps (snd (record_data (Some scenario_batch) ''status_code''
                             status_code_stat_name tags init_agent))
        ''cloudant.status_code'' = None"
  by (simp add: record_data_scenario)

subsection \<open>The freshness test\<close>

lemma should_record_data_absent:
  "last_timestamps st key = None \<Longrightarrow> should_record_data st key epoch"
  by (simp add: should_record_data_def)

lemma should_record_data_nonzero:
  "last_timestamps st key = Some E \<Longrightarrow> E \<noteq> 0 \<Longrightarrow> should_record_data st key epoch \<longleftrightarrow> E < epoch"
  by (simp add: should_record_data_def)

lemma should_record_data_zero:
  "last_timestamps st key = Some 0 \<Longrightarrow> should_record_data st key epoch"
  by (simp add: should_record_data_def)

text \<open>
  C2 at a stored epoch of 0: the claim says \<^verbatim>\<open>_should_record_data(key, 0)\<close> is false
  when the key's stored epoch is 0 (0 is not greater than 0); the code returns true,
  because \<^verbatim>\<open>not last_ts\<close> holds of 0 as it does of \<^verbatim>\<open>None\<close>.
\<close>

theorem should_record_data_stored_zero:
  "should_record_data
     ((init_agent :: int agent)\<lparr>last_timestamps := [''cloudant.status_code./a'' \<mapsto> 0]\<rparr>)
     ''cloudant.status_code./a'' 0"
  by (simp add: should_record_data_def)

subsection \<open>The keys \<^verbatim>\<open>record_data\<close> writes\<close>

lemma record_datapoints_ledger_other:
  "k \<noteq> metric_name \<Longrightarrow>
     last_timestamps (record_datapoints metric_name tags dps st) k = last_timestamps st k"
  by (induction dps arbitrary: st) (auto simp: gauge_def split: option.splits)

lemma record_responses_ledger_other:
  "\<forall>suffix. k \<noteq> dot_join [prefix, suffix] \<Longrightarrow>
     last_timestamps (record_responses prefix stat_name_fn tags rs st) k = last_timestamps st k"
  by (induction rs arbitrary: st)
     (simp_all add: record_datapoints_ledger_other del: dot_join.simps)

lemma record_data_ledger_other:
  "\<forall>suffix. k \<noteq> dot_join [dot_join [''cloudant'', endpoint_name], suffix] \<Longrightarrow>
     last_timestamps (snd (record_data data endpoint_name stat_name_fn tags st)) k
       = last_timestamps st k"
  by (simp add: record_data_def Let_def record_responses_ledger_other
        split: option.splits del: dot_join.simps)

lemma record_data_ledger_prefix:
  "last_timestamps (snd (record_data data endpoint_name stat_name_fn tags st))
       (dot_join [''cloudant'', endpoint_name])
     = last_timestamps st (dot_join [''cloudant'', endpoint_name])"
  by (rule record_data_ledger_other) (simp del: dot_join.simps add: dot_join_extends [symmetric])

lemma record_all_ledger_prefix:
  "last_timestamps (record_all endpoint_name calls st) (dot_join [''cloudant'', endpoint_name])
     = last_timestamps st (dot_join [''cloudant'', endpoint_name])"
  by (induction calls arbitrary: st)
     (auto simp: record_data_ledger_prefix simp del: dot_join.simps)

text \<open>
  C3: \<^verbatim>\<open>record_data\<close> never stores an entry under the batch prefix key. Every key
  whose ledger entry a call changes is \<^verbatim>\<open>prefix + "." + suffix\<close> for some suffix, which
  differs from the prefix, so the entry of the prefix is what it was before the call;
  and in a fresh process (empty ledger), after any number of \<^verbatim>\<open>record_data\<close> calls
  for the endpoint, the prefix has no entry and the batch-level test
  \<^verbatim>\<open>_should_record_data(prefix, end)\<close> passes for every \<^verbatim>\<open>end\<close>.
\<close>

theorem record_data_never_stores_prefix:
  "(\<forall>k. last_timestamps (snd (record_data data endpoint_name stat_name_fn tags st)) k
           \<noteq> last_timestamps st k
        \<longrightarrow> (\<exists>suffix. k = dot_join [dot_join [''cloudant'', endpoint_name], suffix]
                    \<and> k \<noteq> dot_join [''cloudant'', endpoint_name]))
   \<and> last_timestamps (snd (record_data data endpoint_name stat_name_fn tags st))
        (dot_join [''cloudant'', endpoint_name])
       = last_timestamps st (dot_join [''cloudant'', endpoint_name])
   \<and> last_timestamps (record_all endpoint_name calls (init_agent :: 'v agent))
        (dot_join [''cloudant'', endpoint_name]) = None
   \<and> should_record_data (record_all endpoint_name calls (init_agent :: 'v agent))
        (dot_join [''cloudant'', endpoint_name]) epoch"
proof -
  have a: "\<forall>k. last_timestamps (snd (record_data data endpoint_name stat_name_fn tags st)) k
           \<noteq> last_timestamps st k
        \<longrightarrow> (\<exists>suffix. k = dot_join [dot_join [''cloudant'', endpoint_name], suffix]
                    \<and> k \<noteq> dot_join [''cloudant'', endpoint_name])"
  proof (intro allI impI)
    fix k
    assume changed: "last_timestamps (snd (record_data data endpoint_name stat_name_fn tags st)) k
           \<noteq> last_timestamps st k"
    have "\<not> (\<forall>suffix. k \<noteq> dot_join [dot_join [''cloudant'', endpoint_name], suffix])"
      using changed record_data_ledger_other [of k endpoint_name data stat_name_fn tags st]
      by (auto simp del: dot_join.simps)
    then obtain suffix where k: "k = dot_join [dot_join [''cloudant'', endpoint_name], suffix]"
      by (auto simp del: dot_join.simps)
    have "k \<noteq> dot_join [''cloudant'', endpoint_name]"
      unfolding k by (rule dot_join_extends)
    with k show "\<exists>suffix. k = dot_join [dot_join [''cloudant'', endpoint_name], suffix]
                    \<and> k \<noteq> dot_join [''cloudant'', endpoint_name]"
      by (auto simp del: dot_join.simps)
  qed
  have c: "last_timestamps (record_all endpoint_name calls (init_agent :: 'v agent))
        (dot_join [''cloudant'', endpoint_name]) = None"
    by (simp only: record_all_ledger_prefix) (simp add: init_agent_def)
  have d: "should_record_data (record_all endpoint_name calls (init_agent :: 'v agent))
        (dot_join [''cloudant'', endpoint_name]) epoch"
    using c by (simp only: should_record_data_def) simp
  from a c d show ?thesis
    by (simp add: record_data_ledger_prefix del: dot_join.simps)
qed

text \<open>
  C3 at the scenario batch: the first call changes the entry of
  \<^verbatim>\<open>cloudant.status_code./a\<close>, a key that extends the prefix, and after two calls on
  a fresh ledger the prefix \<^verbatim>\<open>cloudant.status_code\<close> still has no entry, so the
  batch-level test passes again.
\<close>

theorem record_data_never_stores_prefix_witness:
  "(\<exists>suffix. ''cloudant.status_code./a''
                = dot_join [dot_join [''cloudant'', ''status_code''], suffix]
        \<and> ''cloudant.status_code./a'' \<noteq> dot_join [''cloudant'', ''status_code''])
   \<and> last_timestamps
        (record_all ''status_code''
           [(Some scenario_batch, status_code_stat_name, None),
            (Some scenario_batch, status_code_stat_name, None)] init_agent)
        ''cloudant.status_code'' = None
   \<and> should_record_data
        (record_all ''status_code''
           [(Some scenario_batch, status_code_stat_name, None),
            (Some scenario_batch, status_code_stat_name, None)] init_agent)
        ''cloudant.status_code'' 100"
proof -
  have changed:
    "last_timestamps (snd (record_data (Some scenario_batch) ''status_code''
        status_code_stat_name None init_agent)) ''cloudant.status_code./a''
      \<noteq> last_timestamps (init_agent :: int agent) ''cloudant.status_code./a''"
    by (simp add: record_data_scenario) (simp add: init_agent_def)
  have p: "dot_join [''cloudant'', ''status_code''] = ''cloudant.status_code''"
    by simp
  show ?thesis
    using changed
      record_data_never_stores_prefix
        [of "Some scenario_batch" "''status_code''" status_code_stat_name None init_agent
            "[(Some scenario_batch, status_code_stat_name, None),
              (Some scenario_batch, status_code_stat_name, None)]" 100]
    unfolding p by blast
qed

text \<open>
  The same holds of a whole tick: \<^verbatim>\<open>check\<close>, whatever the instance and the network,
  leaves the entry of \<^verbatim>\<open>cloudant.status_code\<close> as it was.
\<close>

lemma check_connection_ledger:
  "last_timestamps (snd (check_connection net inst tags st)) = last_timestamps st"
  by (auto simp: check_connection_def service_check_def split: sum.splits exn.splits)

lemma get_status_code_data_ledger_prefix:
  "last_timestamps (snd (get_status_code_data net inst tags st)) ''cloudant.status_code''
     = last_timestamps st ''cloudant.status_code''"
proof -
  have p: "\<And>data st'. last_timestamps
        (snd (record_data data ''status_code'' status_code_stat_name (Some tags) st'))
        ''cloudant.status_code'' = last_timestamps st' ''cloudant.status_code''"
    using record_data_ledger_prefix [of _ "''status_code''"] by simp
  show ?thesis
    by (auto simp: get_status_code_data_def warning_def p
          split: sum.splits exn.splits option.splits)
qed

lemma check_ledger_prefix:
  "last_timestamps (snd (snd (check net inst (h, st)))) ''cloudant.status_code''
     = last_timestamps st ''cloudant.status_code''"
proof -
  have "\<And>tags st1. last_timestamps (snd (get_status_code_data net inst tags
            (snd (check_connection net inst tags st)))) ''cloudant.status_code''
          = last_timestamps st ''cloudant.status_code''"
    by (simp add: get_status_code_data_ledger_prefix check_connection_ledger)
  then show ?thesis
    by (auto simp: check_def Let_def check_connection_ledger
          split: option.splits prod.splits)
       (metis check_connection_ledger snd_conv)+
qed

subsection \<open>What \<^verbatim>\<open>record_data\<close> emits\<close>

lemma record_datapoints_Cons:
  "record_datapoints m tags ((val, epoch) # dps) st =
     record_datapoints m tags dps
       (if val \<noteq> None \<and> should_record_data st m epoch
        then gauge m (the val) (case tags of None \<Rightarrow> [] | Some ts \<Rightarrow> ts) epoch
               (st\<lparr>last_timestamps := (last_timestamps st)(m \<mapsto> epoch)\<rparr>)
        else st)"
  by (auto split: option.splits)

lemma record_datapoints_without_nulls:
  "record_datapoints metric_name tags (filter has_value dps) st
     = record_datapoints metric_name tags dps st"
  by (induction dps arbitrary: st) (auto simp: has_value_def split: option.splits)

lemma record_responses_without_nulls:
  "record_responses prefix stat_name_fn tags
      (map (\<lambda>r. r\<lparr>datapoints := filter has_value (datapoints r)\<rparr>) rs) st
     = record_responses prefix stat_name_fn tags rs st"
  by (induction rs arbitrary: st)
     (simp_all add: record_datapoints_without_nulls del: dot_join.simps)

lemma record_data_without_nulls:
  "record_data (Some (without_nulls d)) endpoint_name stat_name_fn tags st
     = record_data (Some d) endpoint_name stat_name_fn tags st"
  by (simp add: record_data_def without_nulls_def record_responses_without_nulls Let_def
        del: dot_join.simps)

lemma record_datapoints_gauges:
  "\<exists>new. gauges (record_datapoints metric_name tags dps st) = gauges st @ new
     \<and> (\<forall>g \<in> set new. g_name g = metric_name
            \<and> (Some (g_value g), g_timestamp g) \<in> set dps)"
proof (induction dps arbitrary: st)
  case Nil
  show ?case by simp
next
  case (Cons dp dps)
  obtain val epoch where dp: "dp = (val, epoch)" by (cases dp)
  show ?case
  proof (cases "val \<noteq> None \<and> should_record_data st metric_name epoch")
    case False
    then have "record_datapoints metric_name tags (dp # dps) st
                 = record_datapoints metric_name tags dps st"
      by (auto simp: dp split: option.splits)
    with Cons.IH [of st] show ?thesis by auto
  next
    case True
    then obtain v where v: "val = Some v" by auto
    define st1 where "st1 = gauge metric_name v (case tags of None \<Rightarrow> [] | Some ts \<Rightarrow> ts) epoch
                   (st\<lparr>last_timestamps := (last_timestamps st)(metric_name \<mapsto> epoch)\<rparr>)"
    have step: "record_datapoints metric_name tags (dp # dps) st
                 = record_datapoints metric_name tags dps st1"
      using True by (simp add: dp v st1_def)
    have g1: "gauges st1 = gauges st @ [\<lparr>g_name = metric_name, g_value = v,
                g_tags = (case tags of None \<Rightarrow> [] | Some ts \<Rightarrow> ts), g_timestamp = epoch\<rparr>]"
      by (simp add: st1_def gauge_def)
    from Cons.IH [of st1] obtain new where
      new: "gauges (record_datapoints metric_name tags dps st1) = gauges st1 @ new"
        "\<forall>g \<in> set new. g_name g = metric_name
            \<and> (Some (g_value g), g_timestamp g) \<in> set dps"
      by blast
    show ?thesis
      unfolding step
      by (rule exI [of _ "\<lparr>g_name = metric_name, g_value = v,
                g_tags = (case tags of None \<Rightarrow> [] | Some ts \<Rightarrow> ts), g_timestamp = epoch\<rparr> # new"])
         (use new g1 in \<open>auto simp: dp v\<close>)
  qed
qed

lemma record_responses_gauges:
  "\<exists>new. gauges (record_responses prefix stat_name_fn tags rs st) = gauges st @ new
     \<and> (\<forall>g \<in> set new. \<exists>r \<in> set rs.
            g_name g = dot_join [prefix, stat_name_fn (target r)]
            \<and> (Some (g_value g), g_timestamp g) \<in> set (datapoints r))"
proof (induction rs arbitrary: st)
  case Nil
  show ?case by simp
next
  case (Cons r rs)
  define st1 where "st1 = record_datapoints (dot_join [prefix, stat_name_fn (target r)]) tags
          (datapoints r) st"
  from record_datapoints_gauges [of "dot_join [prefix, stat_name_fn (target r)]" tags
      "datapoints r" st]
  obtain new1 where new1: "gauges st1 = gauges st @ new1"
     "\<forall>g \<in> set new1. g_name g = dot_join [prefix, stat_name_fn (target r)]
            \<and> (Some (g_value g), g_timestamp g) \<in> set (datapoints r)"
    unfolding st1_def by blast
  from Cons.IH [of st1] obtain new2 where
    new2: "gauges (record_responses prefix stat_name_fn tags rs st1) = gauges st1 @ new2"
     "\<forall>g \<in> set new2. \<exists>r \<in> set rs.
            g_name g = dot_join [prefix, stat_name_fn (target r)]
            \<and> (Some (g_value g), g_timestamp g) \<in> set (datapoints r)"
    by blast
  have step: "record_responses prefix stat_name_fn tags (r # rs) st
     = record_responses prefix stat_name_fn tags rs st1"
    by (simp add: st1_def del: dot_join.simps)
  show ?case
    unfolding step
    by (rule exI [of _ "new1 @ new2"]) (use new1 new2 in \<open>auto simp del: dot_join.simps\<close>)
qed

text \<open>
  C10: a datapoint whose value is null is never emitted, however fresh its epoch. For
  every response and every ledger state, each gauge that \<^verbatim>\<open>record_data\<close> emits
  carries the value and the epoch of a datapoint of the response whose value is not
  null, under that target's metric name; and the null datapoints have no effect at all:
  the call returns the same result and state as on the response with its null
  datapoints removed.
\<close>

theorem record_data_null_never_emitted:
  "(\<exists>new. gauges (snd (record_data (Some d) endpoint_name stat_name_fn tags st))
            = gauges st @ new
      \<and> (\<forall>g \<in> set new. \<exists>r \<in> set (target_responses d).
             g_name g = dot_join [dot_join [''cloudant'', endpoint_name], stat_name_fn (target r)]
             \<and> (Some (g_value g), g_timestamp g) \<in> set (datapoints r)))
   \<and> record_data (Some (without_nulls d)) endpoint_name stat_name_fn tags st
       = record_data (Some d) endpoint_name stat_name_fn tags st"
proof -
  have "\<exists>new. gauges (snd (record_data (Some d) endpoint_name stat_name_fn tags st))
            = gauges st @ new
      \<and> (\<forall>g \<in> set new. \<exists>r \<in> set (target_responses d).
             g_name g = dot_join [dot_join [''cloudant'', endpoint_name], stat_name_fn (target r)]
             \<and> (Some (g_value g), g_timestamp g) \<in> set (datapoints r))"
  proof (cases "should_record_data st (dot_join [''cloudant'', endpoint_name]) (end_epoch d)")
    case False
    then have "snd (record_data (Some d) endpoint_name stat_name_fn tags st) = st"
      by (simp add: record_data_def Let_def del: dot_join.simps)
    then show ?thesis by simp
  next
    case True
    then have "snd (record_data (Some d) endpoint_name stat_name_fn tags st)
       = record_responses (dot_join [''cloudant'', endpoint_name]) stat_name_fn tags
           (target_responses d) st"
      by (simp add: record_data_def Let_def del: dot_join.simps)
    then show ?thesis
      using record_responses_gauges [of "dot_join [''cloudant'', endpoint_name]" stat_name_fn
          tags "target_responses d" st]
      by (simp del: dot_join.simps)
  qed
  then show ?thesis
    by (simp add: record_data_without_nulls del: dot_join.simps)
qed

text \<open>
  C10 at \<^verbatim>\<open>[[null, 200], [5, 90]]\<close> on an empty ledger: the null datapoint has the
  fresher epoch, and the only gauge emitted is 5 at 90.
\<close>

theorem record_data_null_never_emitted_witness:
  "gauges (snd (record_data (Some null_batch) ''status_code'' status_code_stat_name None
                  init_agent))
     = [\<lparr>g_name = ''cloudant.status_code./a'', g_value = 5, g_tags = [], g_timestamp = 90\<rparr>]
   \<and> (\<exists>r \<in> set (target_responses null_batch). (Some 5, 90) \<in> set (datapoints r))
   \<and> record_data (Some (without_nulls null_batch)) ''status_code'' status_code_stat_name None
        init_agent
      = record_data (Some null_batch) ''status_code'' status_code_stat_name None init_agent"
proof -
  have run: "gauges (snd (record_data (Some null_batch) ''status_code'' status_code_stat_name
                  None init_agent))
     = [\<lparr>g_name = ''cloudant.status_code./a'', g_value = 5, g_tags = [], g_timestamp = 90\<rparr>]"
    by (simp add: record_data_def null_batch_def should_record_data_def init_agent_def
        status_code_stat_name_GET_a gauge_def)
  from record_data_null_never_emitted
         [of null_batch "''status_code''" status_code_stat_name None init_agent]
  obtain new where
    new: "gauges (snd (record_data (Some null_batch) ''status_code'' status_code_stat_name None
                  init_agent)) = gauges init_agent @ new"
      "\<forall>g \<in> set new. \<exists>r \<in> set (target_responses null_batch).
         g_name g = dot_join [dot_join [''cloudant'', ''status_code''],
                              status_code_stat_name (target r)]
         \<and> (Some (g_value g), g_timestamp g) \<in> set (datapoints r)"
    and same: "record_data (Some (without_nulls null_batch)) ''status_code''
          status_code_stat_name None init_agent
      = record_data (Some null_batch) ''status_code'' status_code_stat_name None init_agent"
    by blast
  from new(1) run have "new = [\<lparr>g_name = ''cloudant.status_code./a'', g_value = 5,
        g_tags = [], g_timestamp = 90\<rparr>]"
    by (simp add: init_agent_def)
  with new(2) have "\<exists>r \<in> set (target_responses null_batch).
      (Some 5, 90) \<in> set (datapoints r)"
    by auto
  with run same show ?thesis by simp
qed

subsection \<open>The batch gate\<close>


subsection \<open>The ledger over successive calls\<close>

lemma record_data_epoch0:
  "record_data (Some epoch0_batch) ''status_code'' status_code_stat_name None init_agent =
     (None,
      \<lparr>last_timestamps = [''cloudant.status_code./a'' \<mapsto> 0],
       gauges = [\<lparr>g_name = ''cloudant.status_code./a'', g_value = 5, g_tags = [],
                  g_timestamp = 0\<rparr>],
       service_checks = [], warnings = []\<rparr>)"
  by (simp add: record_data_def epoch0_batch_def 
      should_record_data_def init_agent_def status_code_stat_name_GET_a gauge_def)

text \<open>
  C5 at the epoch 0: on a fresh ledger the batch \<^verbatim>\<open>[[5, 0]]\<close> for \<^verbatim>\<open>GET /a\<close>
  stores the epoch 0; the next batch, \<^verbatim>\<open>[[6, 0], [7, -1]]\<close>, has both its datapoints
  emitted, though neither epoch exceeds the last recorded one, and the stored epoch
  falls from 0 to -1.
\<close>

theorem record_all_epoch_zero_regresses:
  "last_timestamps (record_all ''status_code'' [(Some epoch0_batch, status_code_stat_name, None)]
       init_agent) ''cloudant.status_code./a'' = Some 0
   \<and> last_timestamps (record_all ''status_code''
          [(Some epoch0_batch, status_code_stat_name, None),
           (Some older_batch, status_code_stat_name, None)] init_agent)
        ''cloudant.status_code./a'' = Some (- 1)
   \<and> gauges (record_all ''status_code''
          [(Some epoch0_batch, status_code_stat_name, None),
           (Some older_batch, status_code_stat_name, None)] init_agent)
      = [\<lparr>g_name = ''cloudant.status_code./a'', g_value = 5, g_tags = [], g_timestamp = 0\<rparr>,
         \<lparr>g_name = ''cloudant.status_code./a'', g_value = 6, g_tags = [], g_timestamp = 0\<rparr>,
         \<lparr>g_name = ''cloudant.status_code./a'', g_value = 7, g_tags = [], g_timestamp = - 1\<rparr>]"
  by (simp add: record_data_epoch0)
     (simp add: record_data_def older_batch_def should_record_data_def
        status_code_stat_name_GET_a gauge_def)

text \<open>
  Off the epoch 0 both halves of C5 hold: when no entry of the ledger and no epoch of
  the batch is 0, every entry of the ledger is still there after the call with an epoch
  at least as large, no entry is 0 afterwards, and every gauge emitted has a timestamp
  that exceeds what the ledger held for its name before the call, if it held anything.
\<close>

lemma ledger_le_refl: "ledger_le st st"
  by (simp add: ledger_le_def)

lemma ledger_le_trans: "ledger_le a b \<Longrightarrow> ledger_le b c \<Longrightarrow> ledger_le a c"
  unfolding ledger_le_def by (meson order_trans)

lemma fresh_for_mono: "ledger_le st st1 \<Longrightarrow> fresh_for st1 g \<Longrightarrow> fresh_for st g"
  unfolding ledger_le_def fresh_for_def by (fastforce split: option.splits)

lemma record_datapoints_monotone:
  "ledger_nonzero st \<Longrightarrow> \<forall>dp \<in> set dps. snd dp \<noteq> 0 \<Longrightarrow>
     ledger_nonzero (record_datapoints m tags dps st)
     \<and> ledger_le st (record_datapoints m tags dps st)
     \<and> (\<exists>new. gauges (record_datapoints m tags dps st) = gauges st @ new
           \<and> (\<forall>g \<in> set new. fresh_for st g))"
proof (induction dps arbitrary: st)
  case Nil
  then show ?case by (simp add: ledger_le_refl)
next
  case (Cons dp dps)
  obtain val epoch where dp: "dp = (val, epoch)" by (cases dp)
  from Cons.prems have e0: "epoch \<noteq> 0" and rest: "\<forall>dp \<in> set dps. snd dp \<noteq> 0"
    by (auto simp: dp)
  define st1 where "st1 =
       (if val \<noteq> None \<and> should_record_data st m epoch
        then gauge m (the val) (case tags of None \<Rightarrow> [] | Some ts \<Rightarrow> ts) epoch
               (st\<lparr>last_timestamps := (last_timestamps st)(m \<mapsto> epoch)\<rparr>)
        else st)"
  have step: "record_datapoints m tags (dp # dps) st = record_datapoints m tags dps st1"
    unfolding dp st1_def by (rule record_datapoints_Cons)
  have nz1: "ledger_nonzero st1"
    using Cons.prems(1) e0 by (auto simp: st1_def ledger_nonzero_def gauge_def)
  have le1: "ledger_le st st1"
    using Cons.prems(1)
    by (auto simp: st1_def ledger_le_def ledger_nonzero_def gauge_def should_record_data_def
          split: option.splits)
  have g1: "\<exists>new1. gauges st1 = gauges st @ new1 \<and> (\<forall>g \<in> set new1. fresh_for st g)"
  proof (cases "val \<noteq> None \<and> should_record_data st m epoch")
    case False
    then show ?thesis by (auto simp: st1_def)
  next
    case True
    then have "fresh_for st \<lparr>g_name = m, g_value = the val,
        g_tags = (case tags of None \<Rightarrow> [] | Some ts \<Rightarrow> ts), g_timestamp = epoch\<rparr>"
      using Cons.prems(1)
      by (auto simp: fresh_for_def should_record_data_def ledger_nonzero_def
            split: option.splits)
    with True show ?thesis by (simp add: st1_def gauge_def)
  qed
  then obtain new1 where new1: "gauges st1 = gauges st @ new1" "\<forall>g \<in> set new1. fresh_for st g"
    by blast
  from Cons.IH [OF nz1 rest] obtain new2 where
    ih: "ledger_nonzero (record_datapoints m tags dps st1)"
        "ledger_le st1 (record_datapoints m tags dps st1)"
        "gauges (record_datapoints m tags dps st1) = gauges st1 @ new2"
        "\<forall>g \<in> set new2. fresh_for st1 g"
    by blast
  have "\<forall>g \<in> set (new1 @ new2). fresh_for st g"
    using new1(2) ih(4) fresh_for_mono [OF le1] by auto
  moreover have "gauges (record_datapoints m tags dps st1) = gauges st @ (new1 @ new2)"
    using new1(1) ih(3) by simp
  ultimately show ?case
    unfolding step using ih(1) ledger_le_trans [OF le1 ih(2)] by blast
qed

lemma record_responses_monotone:
  "ledger_nonzero st \<Longrightarrow> \<forall>r \<in> set rs. \<forall>dp \<in> set (datapoints r). snd dp \<noteq> 0 \<Longrightarrow>
     ledger_nonzero (record_responses prefix stat_name_fn tags rs st)
     \<and> ledger_le st (record_responses prefix stat_name_fn tags rs st)
     \<and> (\<exists>new. gauges (record_responses prefix stat_name_fn tags rs st) = gauges st @ new
           \<and> (\<forall>g \<in> set new. fresh_for st g))"
proof (induction rs arbitrary: st)
  case Nil
  then show ?case by (simp add: ledger_le_refl)
next
  case (Cons r rs)
  define st1 where "st1 = record_datapoints (dot_join [prefix, stat_name_fn (target r)]) tags
          (datapoints r) st"
  have step: "record_responses prefix stat_name_fn tags (r # rs) st
     = record_responses prefix stat_name_fn tags rs st1"
    by (simp add: st1_def del: dot_join.simps)
  from Cons.prems have here: "\<forall>dp \<in> set (datapoints r). snd dp \<noteq> 0"
    and rest: "\<forall>r \<in> set rs. \<forall>dp \<in> set (datapoints r). snd dp \<noteq> 0"
    by auto
  from record_datapoints_monotone [OF Cons.prems(1) here, folded st1_def,
      of "dot_join [prefix, stat_name_fn (target r)]" tags]
  obtain new1 where
    s1: "ledger_nonzero st1" "ledger_le st st1" "gauges st1 = gauges st @ new1"
        "\<forall>g \<in> set new1. fresh_for st g"
    unfolding st1_def by blast
  from Cons.IH [OF s1(1) rest] obtain new2 where
    ih: "ledger_nonzero (record_responses prefix stat_name_fn tags rs st1)"
        "ledger_le st1 (record_responses prefix stat_name_fn tags rs st1)"
        "gauges (record_responses prefix stat_name_fn tags rs st1) = gauges st1 @ new2"
        "\<forall>g \<in> set new2. fresh_for st1 g"
    by blast
  have "\<forall>g \<in> set (new1 @ new2). fresh_for st g"
    using s1(4) ih(4) fresh_for_mono [OF s1(2)] by auto
  moreover have "gauges (record_responses prefix stat_name_fn tags rs st1)
       = gauges st @ (new1 @ new2)"
    using s1(3) ih(3) by simp
  ultimately show ?case
    unfolding step using ih(1) ledger_le_trans [OF s1(2) ih(2)] by blast
qed

lemma record_data_monotone:
  assumes "ledger_nonzero st" and "epochs_nonzero d"
  shows "ledger_nonzero (snd (record_data (Some d) endpoint_name stat_name_fn tags st))
     \<and> ledger_le st (snd (record_data (Some d) endpoint_name stat_name_fn tags st))
     \<and> (\<exists>new. gauges (snd (record_data (Some d) endpoint_name stat_name_fn tags st))
                 = gauges st @ new
           \<and> (\<forall>g \<in> set new. fresh_for st g))"
proof (cases "should_record_data st (dot_join [''cloudant'', endpoint_name]) (end_epoch d)")
  case False
  then have "snd (record_data (Some d) endpoint_name stat_name_fn tags st) = st"
    by (simp add: record_data_def Let_def del: dot_join.simps)
  with assms(1) show ?thesis by (simp add: ledger_le_refl)
next
  case True
  then have "snd (record_data (Some d) endpoint_name stat_name_fn tags st)
       = record_responses (dot_join [''cloudant'', endpoint_name]) stat_name_fn tags
           (target_responses d) st"
    by (simp add: record_data_def Let_def del: dot_join.simps)
  then show ?thesis
    using record_responses_monotone [OF assms(1), of "target_responses d"
        "dot_join [''cloudant'', endpoint_name]" stat_name_fn tags] assms(2)
    by (simp add: epochs_nonzero_def del: dot_join.simps)
qed

text \<open>The same over any number of successive calls, a call on \<^verbatim>\<open>None\<close> changing nothing.\<close>

lemma record_all_monotone:
  "ledger_nonzero st \<Longrightarrow>
   \<forall>call \<in> set calls. \<forall>d. fst call = Some d \<longrightarrow> epochs_nonzero d \<Longrightarrow>
     ledger_nonzero (record_all endpoint_name calls st)
     \<and> ledger_le st (record_all endpoint_name calls st)"
proof (induction calls arbitrary: st)
  case Nil
  then show ?case by (simp add: ledger_le_refl)
next
  case (Cons call calls)
  obtain data stat_name_fn tags where call: "call = (data, stat_name_fn, tags)"
    by (cases call)
  define st1 where "st1 = snd (record_data data endpoint_name stat_name_fn tags st)"
  have step: "record_all endpoint_name (call # calls) st = record_all endpoint_name calls st1"
    by (simp add: call st1_def)
  have s1: "ledger_nonzero st1 \<and> ledger_le st st1"
  proof (cases data)
    case None
    then have "st1 = st" by (simp add: st1_def record_data_def)
    with Cons.prems(1) show ?thesis by (simp add: ledger_le_refl)
  next
    case (Some d)
    with Cons.prems(2) have "epochs_nonzero d" by (simp add: call)
    from record_data_monotone [OF Cons.prems(1) this, of endpoint_name stat_name_fn tags]
    show ?thesis by (simp add: st1_def Some)
  qed
  from Cons.prems(2) have rest: "\<forall>call \<in> set calls. \<forall>d. fst call = Some d \<longrightarrow> epochs_nonzero d"
    by simp
  from Cons.IH [OF _ rest, of st1] s1 show ?case
    unfolding step using ledger_le_trans by blast
qed

subsection \<open>The same batch twice\<close>

text \<open>
  C6 at the epoch 0: the batch \<^verbatim>\<open>[[5, 0]]\<close> for \<^verbatim>\<open>GET /a\<close>, fed twice to a fresh
  check, is emitted twice.
\<close>

theorem record_data_twice_epoch_zero:
  "gauges (snd (record_data (Some epoch0_batch) ''status_code'' status_code_stat_name None
       (snd (record_data (Some epoch0_batch) ''status_code'' status_code_stat_name None
          init_agent))))
   = [\<lparr>g_name = ''cloudant.status_code./a'', g_value = 5, g_tags = [], g_timestamp = 0\<rparr>,
      \<lparr>g_name = ''cloudant.status_code./a'', g_value = 5, g_tags = [], g_timestamp = 0\<rparr>]"
  by (simp add: record_data_epoch0)
     (simp add: record_data_def epoch0_batch_def should_record_data_def
        status_code_stat_name_GET_a gauge_def)

text \<open>
  Off the epoch 0 the second call is a no-op: when no epoch of the batch is 0, a second
  \<^verbatim>\<open>record_data\<close> on the same batch, from any starting state, emits nothing and
  changes nothing.
\<close>

lemma recorded_upto_step:
  assumes "recorded_upto st key e" and "epoch \<noteq> 0"
  shows "recorded_upto
       (if val \<noteq> None \<and> should_record_data st m epoch
        then gauge m (the val) ts epoch
               (st\<lparr>last_timestamps := (last_timestamps st)(m \<mapsto> epoch)\<rparr>)
        else st) key e"
  using assms
  by (auto simp: recorded_upto_def should_record_data_def gauge_def split: option.splits)

lemma recorded_upto_record_datapoints:
  "recorded_upto st key e \<Longrightarrow> \<forall>dp \<in> set dps. snd dp \<noteq> 0 \<Longrightarrow>
     recorded_upto (record_datapoints m tags dps st) key e"
proof (induction dps arbitrary: st)
  case Nil
  then show ?case by simp
next
  case (Cons dp dps)
  obtain val epoch where dp: "dp = (val, epoch)" by (cases dp)
  from Cons.prems have e0: "epoch \<noteq> 0" and rest: "\<forall>dp \<in> set dps. snd dp \<noteq> 0"
    by (auto simp: dp)
  show ?case
    unfolding dp record_datapoints_Cons
    by (rule Cons.IH [OF recorded_upto_step [OF Cons.prems(1) e0] rest])
qed

lemma recorded_upto_record_responses:
  "recorded_upto st key e \<Longrightarrow> \<forall>r \<in> set rs. \<forall>dp \<in> set (datapoints r). snd dp \<noteq> 0 \<Longrightarrow>
     recorded_upto (record_responses prefix stat_name_fn tags rs st) key e"
proof (induction rs arbitrary: st)
  case Nil
  then show ?case by simp
next
  case (Cons r rs)
  from Cons.prems have here: "\<forall>dp \<in> set (datapoints r). snd dp \<noteq> 0"
    and rest: "\<forall>r \<in> set rs. \<forall>dp \<in> set (datapoints r). snd dp \<noteq> 0"
    by auto
  show ?case
    unfolding record_responses.simps
    by (rule Cons.IH [OF recorded_upto_record_datapoints [OF Cons.prems(1) here] rest])
qed

lemma record_datapoints_records_all:
  "\<forall>dp \<in> set dps. snd dp \<noteq> 0 \<Longrightarrow>
     \<forall>dp \<in> set dps. fst dp \<noteq> None \<longrightarrow>
        recorded_upto (record_datapoints m tags dps st) m (snd dp)"
proof (induction dps arbitrary: st)
  case Nil
  then show ?case by simp
next
  case (Cons dp dps)
  obtain val epoch where dp: "dp = (val, epoch)" by (cases dp)
  from Cons.prems have e0: "epoch \<noteq> 0" and rest: "\<forall>dp \<in> set dps. snd dp \<noteq> 0"
    by (auto simp: dp)
  define st1 where "st1 =
       (if val \<noteq> None \<and> should_record_data st m epoch
        then gauge m (the val) (case tags of None \<Rightarrow> [] | Some ts \<Rightarrow> ts) epoch
               (st\<lparr>last_timestamps := (last_timestamps st)(m \<mapsto> epoch)\<rparr>)
        else st)"
  have step: "record_datapoints m tags (dp # dps) st = record_datapoints m tags dps st1"
    unfolding dp st1_def by (rule record_datapoints_Cons)
  have first: "val \<noteq> None \<longrightarrow> recorded_upto (record_datapoints m tags dps st1) m epoch"
  proof
    assume "val \<noteq> None"
    then have "recorded_upto st1 m epoch"
      using e0
      by (auto simp: st1_def recorded_upto_def should_record_data_def gauge_def
            split: option.splits)
    then show "recorded_upto (record_datapoints m tags dps st1) m epoch"
      using rest by (rule recorded_upto_record_datapoints)
  qed
  show ?case
    unfolding step using first Cons.IH [OF rest, of st1] by (simp add: dp)
qed

lemma record_datapoints_noop:
  "\<forall>dp \<in> set dps. fst dp \<noteq> None \<longrightarrow> recorded_upto st m (snd dp) \<Longrightarrow>
     record_datapoints m tags dps st = st"
proof (induction dps)
  case Nil
  show ?case by simp
next
  case (Cons dp dps)
  obtain val epoch where dp: "dp = (val, epoch)" by (cases dp)
  have "\<not> (val \<noteq> None \<and> should_record_data st m epoch)"
    using Cons.prems by (auto simp: dp recorded_upto_def should_record_data_def)
  then have "record_datapoints m tags (dp # dps) st = record_datapoints m tags dps st"
    unfolding dp record_datapoints_Cons by auto
  with Cons show ?case by simp
qed

lemma record_responses_records_all:
  "\<forall>r \<in> set rs. \<forall>dp \<in> set (datapoints r). snd dp \<noteq> 0 \<Longrightarrow>
     all_recorded (record_responses prefix stat_name_fn tags rs st) prefix stat_name_fn rs"
proof (induction rs arbitrary: st)
  case Nil
  show ?case by (simp add: all_recorded_def)
next
  case (Cons r rs)
  from Cons.prems have here: "\<forall>dp \<in> set (datapoints r). snd dp \<noteq> 0"
    and rest: "\<forall>r \<in> set rs. \<forall>dp \<in> set (datapoints r). snd dp \<noteq> 0"
    by auto
  define st1 where "st1 = record_datapoints (dot_join [prefix, stat_name_fn (target r)]) tags
          (datapoints r) st"
  have step: "record_responses prefix stat_name_fn tags (r # rs) st
     = record_responses prefix stat_name_fn tags rs st1"
    by (simp add: st1_def del: dot_join.simps)
  have first: "\<forall>dp \<in> set (datapoints r). fst dp \<noteq> None \<longrightarrow>
        recorded_upto (record_responses prefix stat_name_fn tags rs st1)
          (dot_join [prefix, stat_name_fn (target r)]) (snd dp)"
    using record_datapoints_records_all [OF here, of "dot_join [prefix, stat_name_fn (target r)]"
        tags st, folded st1_def]
      recorded_upto_record_responses [OF _ rest]
    by blast
  show ?case
    unfolding step using first Cons.IH [OF rest, of st1]
    by (simp add: all_recorded_def del: dot_join.simps)
qed

lemma record_responses_noop:
  "all_recorded st prefix stat_name_fn rs \<Longrightarrow>
     record_responses prefix stat_name_fn tags rs st = st"
proof (induction rs)
  case Nil
  show ?case by simp
next
  case (Cons r rs)
  from Cons.prems have here: "\<forall>dp \<in> set (datapoints r). fst dp \<noteq> None \<longrightarrow>
        recorded_upto st (dot_join [prefix, stat_name_fn (target r)]) (snd dp)"
    and rest: "all_recorded st prefix stat_name_fn rs"
    by (simp_all add: all_recorded_def del: dot_join.simps)
  show ?case
    unfolding record_responses.simps record_datapoints_noop [OF here]
    by (rule Cons.IH [OF rest])
qed

lemma record_data_twice:
  assumes "epochs_nonzero d"
  shows "record_data (Some d) endpoint_name stat_name_fn tags'
           (snd (record_data (Some d) endpoint_name stat_name_fn tags st))
         = (None, snd (record_data (Some d) endpoint_name stat_name_fn tags st))"
proof (cases "should_record_data st (dot_join [''cloudant'', endpoint_name]) (end_epoch d)")
  case False
  then show ?thesis
    by (simp add: record_data_def Let_def del: dot_join.simps)
next
  case True
  define st1 where "st1 = record_responses (dot_join [''cloudant'', endpoint_name]) stat_name_fn
           tags (target_responses d) st"
  have first: "snd (record_data (Some d) endpoint_name stat_name_fn tags st) = st1"
    using True by (simp add: record_data_def Let_def st1_def del: dot_join.simps)
  have "all_recorded st1 (dot_join [''cloudant'', endpoint_name]) stat_name_fn
          (target_responses d)"
    unfolding st1_def
    by (rule record_responses_records_all) (use assms in \<open>simp add: epochs_nonzero_def\<close>)
  then have "record_responses (dot_join [''cloudant'', endpoint_name]) stat_name_fn tags'
           (target_responses d) st1 = st1"
    by (rule record_responses_noop)
  then show ?thesis
    unfolding first by (simp add: record_data_def Let_def del: dot_join.simps)
qed

subsection \<open>The connectivity probe\<close>

text \<open>
  C9: every call of \<^verbatim>\<open>check_connection\<close> on an instance that has a username and a
  cluster (what \<^verbatim>\<open>_validate_instance\<close> has checked before the call, and what the
  liveness URL is built from) emits exactly one service check, named
  \<^verbatim>\<open>cloudant.can_connect\<close> and tagged with the tags passed in, and nothing else.
  When the fetch succeeds the state is OK, the message says so, and the call returns
  normally. When the fetch fails with any exception the state is CRITICAL, the message
  carries the error detail (the URL and the error for a timeout, the error otherwise),
  and the same exception is raised to the caller, the service check standing in the
  state it leaves behind.
\<close>

theorem check_connection_one_service_check:
  assumes "i_username inst \<noteq> None" and "i_cluster inst \<noteq> None"
  shows "\<exists>url sc.
     build_url ''uptime'' inst = Inr url
     \<and> service_checks (snd (check_connection net inst tags st)) = service_checks st @ [sc]
     \<and> sc_name sc = ''cloudant.can_connect'' \<and> sc_tags sc = tags
     \<and> (case get_stats net url inst of
          Inr body \<Rightarrow>
            fst (check_connection net inst tags st) = None
            \<and> sc_status sc = OK
            \<and> sc_message sc = ''Connection to '' @ url @ '' was successful''
        | Inl e \<Rightarrow>
            fst (check_connection net inst tags st) = Some e
            \<and> sc_status sc = CRITICAL
            \<and> sc_message sc =
                (case e of
                   Timeout m \<Rightarrow> ''Request timeout: '' @ url @ '', '' @ m
                 | _ \<Rightarrow> str_exn e))
     \<and> gauges (snd (check_connection net inst tags st)) = gauges st
     \<and> last_timestamps (snd (check_connection net inst tags st)) = last_timestamps st
     \<and> warnings (snd (check_connection net inst tags st)) = warnings st"
proof -
  from assms obtain url where url: "build_url ''uptime'' inst = Inr url"
    by (auto simp: build_url_def)
  show ?thesis
  proof (cases "get_stats net url inst")
    case (Inr body)
    with url show ?thesis
      by (simp add: check_connection_def service_check_def SERVICE_CHECK_NAME_def)
  next
    case (Inl e)
    with url show ?thesis
      by (cases e) (simp_all add: check_connection_def service_check_def SERVICE_CHECK_NAME_def)
  qed
qed

text \<open>
  C9 at an instance with all three keys: once on a network that answers, once on a
  network that times out.
\<close>

theorem check_connection_one_service_check_witness:
  "check_connection null_network plain_instance [''cluster:c1''] init_agent
     = (None,
        init_agent\<lparr>service_checks :=
          [\<lparr>sc_name = ''cloudant.can_connect'', sc_status = OK, sc_tags = [''cluster:c1''],
            sc_message = ''Connection to https://u.cloudant.com/_api/v2/monitoring/uptime?cluster=c1 was successful''\<rparr>]\<rparr>)
   \<and> check_connection timeout_network plain_instance [''cluster:c1''] init_agent
     = (Some (Timeout ''timed out''),
        init_agent\<lparr>service_checks :=
          [\<lparr>sc_name = ''cloudant.can_connect'', sc_status = CRITICAL,
            sc_tags = [''cluster:c1''],
            sc_message = ''Request timeout: https://u.cloudant.com/_api/v2/monitoring/uptime?cluster=c1, timed out''\<rparr>]\<rparr>)"
proof -
  have u: "i_username plain_instance \<noteq> None" and c: "i_cluster plain_instance \<noteq> None"
    by (simp_all add: plain_instance_def)
  have url: "build_url ''uptime'' plain_instance
      = Inr ''https://u.cloudant.com/_api/v2/monitoring/uptime?cluster=c1''"
    by (simp add: build_url_def plain_instance_def)
  have ok: "get_stats null_network ''https://u.cloudant.com/_api/v2/monitoring/uptime?cluster=c1''
      plain_instance = Inr None"
    by (simp add: get_stats_def plain_instance_def null_network_def)
  have ko: "get_stats timeout_network
      ''https://u.cloudant.com/_api/v2/monitoring/uptime?cluster=c1''
      plain_instance = Inl (Timeout ''timed out'')"
    by (simp add: get_stats_def plain_instance_def timeout_network_def)
  have eq: "\<And>r (st :: int agent) sc.
     service_checks st = service_checks init_agent @ [sc] \<Longrightarrow> gauges st = gauges init_agent \<Longrightarrow>
     last_timestamps st = last_timestamps init_agent \<Longrightarrow> warnings st = warnings init_agent \<Longrightarrow>
     st = init_agent\<lparr>service_checks := [sc]\<rparr>"
    by (simp add: init_agent_def)
  have sc_eq: "\<And>sc n s t m. sc_name sc = n \<Longrightarrow> sc_status sc = s \<Longrightarrow> sc_tags sc = t \<Longrightarrow>
     sc_message sc = m \<Longrightarrow> sc = \<lparr>sc_name = n, sc_status = s, sc_tags = t, sc_message = m\<rparr>"
    by auto
  have first: "check_connection null_network plain_instance [''cluster:c1''] init_agent
     = (None,
        init_agent\<lparr>service_checks :=
          [\<lparr>sc_name = ''cloudant.can_connect'', sc_status = OK, sc_tags = [''cluster:c1''],
            sc_message = ''Connection to https://u.cloudant.com/_api/v2/monitoring/uptime?cluster=c1 was successful''\<rparr>]\<rparr>)"
    using check_connection_one_service_check
            [OF u c, of null_network "[''cluster:c1'']" init_agent]
    by (auto simp: url ok prod_eq_iff dest!: sc_eq intro!: eq)
  have second: "check_connection timeout_network plain_instance [''cluster:c1''] init_agent
     = (Some (Timeout ''timed out''),
        init_agent\<lparr>service_checks :=
          [\<lparr>sc_name = ''cloudant.can_connect'', sc_status = CRITICAL,
            sc_tags = [''cluster:c1''],
            sc_message = ''Request timeout: https://u.cloudant.com/_api/v2/monitoring/uptime?cluster=c1, timed out''\<rparr>]\<rparr>)"
    using check_connection_one_service_check
            [OF u c, of timeout_network "[''cluster:c1'']" init_agent]
    by (auto simp: url ko prod_eq_iff dest!: sc_eq intro!: eq)
  from first second show ?thesis by (rule conjI)
qed

subsection \<open>The empty payload\<close>

lemma get_status_code_data_null_payload:
  "build_url ''rate/status_code'' inst = Inr url \<Longrightarrow> get_stats net url inst = Inr None \<Longrightarrow>
     get_status_code_data net inst tags st
       = (Some (TypeError none_subscript_message),
          warning (''No stats could be retrieved from '' @ url) st)"
  by (auto simp: get_status_code_data_def build_url_def record_data_def split: option.splits)

text \<open>
  C7 at a network that answers every request with \<^verbatim>\<open>null\<close>: the tick emits the OK
  service check, logs the warning, emits no gauge, and then raises the
  \<^verbatim>\<open>TypeError\<close> of \<^verbatim>\<open>data['end']\<close> on \<^verbatim>\<open>None\<close> instead of completing.
\<close>

theorem check_null_payload_raises:
  "check null_network plain_instance ([], init_agent) =
     (Some (TypeError none_subscript_message),
      [[''cluster:c1'']],
      \<lparr>last_timestamps = Map.empty, gauges = [],
       service_checks =
         [\<lparr>sc_name = ''cloudant.can_connect'', sc_status = OK, sc_tags = [''cluster:c1''],
           sc_message = ''Connection to https://u.cloudant.com/_api/v2/monitoring/uptime?cluster=c1 was successful''\<rparr>],
       warnings = [''No stats could be retrieved from https://u.cloudant.com/_api/v2/monitoring/rate/status_code?cluster=c1'']\<rparr>)"
  by (simp add: check_def validate_instance_def plain_instance_def new_list_def list_append_def
      deref_def check_connection_def build_url_def get_stats_def null_network_def
      service_check_def SERVICE_CHECK_NAME_def get_status_code_data_def warning_def
      record_data_def init_agent_def)

subsection \<open>The tags of the instance\<close>

lemma validate_instance_None:
  "validate_instance inst = None \<longleftrightarrow>
     i_cluster inst \<noteq> None \<and> i_username inst \<noteq> None \<and> i_password inst \<noteq> None"
  by (auto simp: validate_instance_def)

lemma check_heap:
  "validate_instance inst = None \<Longrightarrow> i_cluster inst = Some c \<Longrightarrow>
     fst (snd (check net inst (h, st)))
       = (case i_tags inst of
            None \<Rightarrow> h @ [[''cluster:'' @ c]]
          | Some a \<Rightarrow> list_append a (''cluster:'' @ c) h)"
  by (auto simp: check_def new_list_def list_append_def Let_def
        split: option.splits prod.splits)

lemma check_appends_to_instance_tags:
  "validate_instance inst = None \<Longrightarrow> i_cluster inst = Some c \<Longrightarrow> i_tags inst = Some a \<Longrightarrow>
     a < length h \<Longrightarrow>
     deref (fst (snd (check net inst (h, st)))) a = deref h a @ [''cluster:'' @ c]"
  by (simp add: check_heap list_append_def deref_def)

lemma check_without_tags_key:
  "i_tags inst = None \<Longrightarrow> a < length h \<Longrightarrow>
     deref (fst (snd (check net inst (h, st)))) a = deref h a"
  by (auto simp: check_def new_list_def list_append_def Let_def deref_def nth_append
        split: option.splits prod.splits)

text \<open>
  C8 at an instance with \<^verbatim>\<open>tags: ["env:prod"]\<close>: after one tick the tag list of the
  instance is \<^verbatim>\<open>["env:prod", "cluster:c1"]\<close>.
\<close>

theorem check_extends_instance_tags:
  "deref tagged_heap 0 = [''env:prod'']
   \<and> fst (check null_network tagged_instance (tagged_heap, init_agent))
       = Some (TypeError none_subscript_message)
   \<and> deref (fst (snd (check null_network tagged_instance (tagged_heap, init_agent)))) 0
       = [''env:prod'', ''cluster:c1'']"
  by (simp add: check_def validate_instance_def plain_instance_def tagged_instance_def
      tagged_heap_def new_list_def list_append_def
      deref_def check_connection_def build_url_def get_stats_def null_network_def
      service_check_def SERVICE_CHECK_NAME_def get_status_code_data_def warning_def
      record_data_def init_agent_def)

end
